theory Spec2Isabelle
  imports Main "HOL-Library.Char_ord" "HOL-Library.List_Lexorder"
begin

section \<open>git-hook: registry, installer and dispatcher of chained git hooks\<close>

text \<open>
  A shallow embedding of \<^verbatim>\<open>git-hook.go\<close>. Go strings are byte strings, modelled as
  \<^typ>\<open>string\<close> (lists of 8-bit characters). The program works on the file system below
  the git directory, on the network and on child processes; these are made explicit as a
  \<open>world\<close> record that every operation takes and returns. Paths below the git
  directory are identified by their components (the timing and the file name), which is
  exact for the timings of the fixed list and a git directory path without glob
  metacharacters. File names and paths follow the Unix build of the program.
\<close>

subsection \<open>Errors\<close>

datatype error =
    GitError              \<comment> \<open>\<^verbatim>\<open>git rev-parse --git-dir\<close> failed\<close>
  | NotHttpUrl string     \<comment> \<open>ParseUrlHook: the string has no http(s) prefix\<close>
  | UrlParseError string  \<comment> \<open>\<^verbatim>\<open>url.Parse\<close> rejected the string\<close>
  | ENOENT                \<comment> \<open>no such file or directory\<close>
  | EEXIST                \<comment> \<open>file exists\<close>
  | ENOTDIR               \<comment> \<open>not a directory\<close>
  | ENOTEMPTY             \<comment> \<open>directory not empty\<close>
  | EISDIR                \<comment> \<open>is a directory\<close>
  | EIO                   \<comment> \<open>any other failure of \<^verbatim>\<open>os.Stat\<close>\<close>
  | ErrTooLong            \<comment> \<open>\<^verbatim>\<open>bufio.Scanner\<close>: token too long\<close>
  | HttpError             \<comment> \<open>\<^verbatim>\<open>http.Get\<close> or reading the body failed\<close>
  | ExecError nat         \<comment> \<open>a child process failed to start or exited non-zero\<close>
  | NilDereference        \<comment> \<open>a method call on a nil Hook (run-time panic)\<close>
  | WrongTiming           \<comment> \<open>unshiftTiming: "wrong timing"\<close>

subsection \<open>Library functions on strings\<close>

text \<open>\<^verbatim>\<open>strings.HasPrefix\<close>.\<close>

definition HasPrefix :: "string \<Rightarrow> string \<Rightarrow> bool" where
  "HasPrefix s p = (take (length p) s = p)"

text \<open>
  \<^verbatim>\<open>strings.TrimSpace\<close> removes leading and trailing white space as defined by
  Unicode. On the bytes of a string the white space code points are the following UTF-8
  sequences: the six ASCII ones, U+0085, U+00A0, U+1680, U+2000 to U+200A, U+2028,
  U+2029, U+202F, U+205F and U+3000. A byte that starts no such sequence (invalid UTF-8
  included) stops the trimming.
\<close>

definition space_seqs :: "string list" where
  "space_seqs =
    [[CHR 0x09], [CHR 0x0A], [CHR 0x0B], [CHR 0x0C], [CHR 0x0D], [CHR 0x20],
     [CHR 0xC2, CHR 0x85], [CHR 0xC2, CHR 0xA0],
     [CHR 0xE1, CHR 0x9A, CHR 0x80],
     [CHR 0xE2, CHR 0x80, CHR 0x80], [CHR 0xE2, CHR 0x80, CHR 0x81],
     [CHR 0xE2, CHR 0x80, CHR 0x82], [CHR 0xE2, CHR 0x80, CHR 0x83],
     [CHR 0xE2, CHR 0x80, CHR 0x84], [CHR 0xE2, CHR 0x80, CHR 0x85],
     [CHR 0xE2, CHR 0x80, CHR 0x86], [CHR 0xE2, CHR 0x80, CHR 0x87],
     [CHR 0xE2, CHR 0x80, CHR 0x88], [CHR 0xE2, CHR 0x80, CHR 0x89],
     [CHR 0xE2, CHR 0x80, CHR 0x8A],
     [CHR 0xE2, CHR 0x80, CHR 0xA8], [CHR 0xE2, CHR 0x80, CHR 0xA9],
     [CHR 0xE2, CHR 0x80, CHR 0xAF], [CHR 0xE2, CHR 0x81, CHR 0x9F],
     [CHR 0xE3, CHR 0x80, CHR 0x80]]"

text \<open>The rest of \<open>s\<close> after the first white space sequence it starts with, if any.\<close>

fun cut_space :: "string list \<Rightarrow> string \<Rightarrow> string option" where
  "cut_space [] s = None"
| "cut_space (q # qs) s =
     (if HasPrefix s q then Some (drop (length q) s) else cut_space qs s)"

function TrimLeftSpace :: "string list \<Rightarrow> string \<Rightarrow> string" where
  "TrimLeftSpace qs s =
     (case cut_space (filter (\<lambda>q. q \<noteq> []) qs) s of
        None \<Rightarrow> s
      | Some r \<Rightarrow> TrimLeftSpace qs r)"
  by pat_completeness auto
termination
proof (relation "measure (\<lambda>(qs, s). length s)")
  show "wf (measure (\<lambda>(qs, s). length s))" by simp
next
  fix qs :: "string list" and s r :: string
  assume cut: "cut_space (filter (\<lambda>q. q \<noteq> []) qs) s = Some r"
  have shorter: "cut_space ps s = Some r \<Longrightarrow> [] \<notin> set ps \<Longrightarrow> length r < length s"
    for ps
  proof (induction ps)
    case Nil
    then show ?case by simp
  next
    case (Cons q ps)
    show ?case
    proof (cases "HasPrefix s q")
      case True
      with Cons.prems have r: "r = drop (length q) s" and q: "q \<noteq> []" by auto
      from True q have "s \<noteq> []" by (auto simp: HasPrefix_def)
      with r q show ?thesis by simp
    next
      case False
      with Cons show ?thesis by simp
    qed
  qed
  from cut have "length r < length s" by (rule shorter) simp
  then show "((qs, r), (qs, s)) \<in> measure (\<lambda>(qs, s). length s)" by simp
qed

declare TrimLeftSpace.simps [simp del]

definition TrimSpace :: "string \<Rightarrow> string" where
  "TrimSpace s =
     rev (TrimLeftSpace (map rev space_seqs) (rev (TrimLeftSpace space_seqs s)))"

text \<open>
  \<^verbatim>\<open>filepath.Base\<close>: the last element of a path. Trailing separators are removed first;
  the empty path gives \<^verbatim>\<open>.\<close>, a path of separators only gives \<^verbatim>\<open>/\<close>.
\<close>

definition Base :: "string \<Rightarrow> string" where
  "Base path =
     (if path = [] then ''.''
      else let p = rev (dropWhile (\<lambda>c. c = CHR ''/'') (rev path));
               e = rev (takeWhile (\<lambda>c. c \<noteq> CHR ''/'') (rev p))
           in if e = [] then ''/'' else e)"

text \<open>\<^verbatim>\<open>fmt.Sprintf("%d", i)\<close> for an index \<open>i \<ge> 0\<close>: the decimal digits of \<open>i\<close>.\<close>

definition digit :: "nat \<Rightarrow> char" where
  "digit d = char_of (48 + d)"

fun itoa :: "nat \<Rightarrow> string" where
  "itoa n = (if n < 10 then [digit n] else itoa (n div 10) @ [digit (n mod 10)])"

declare itoa.simps [simp del]

text \<open>
  \<^verbatim>\<open>filepath.Join(dir, elem)\<close> cleans its result, which removes trailing
  separators of \<open>elem\<close>. \<open>JoinLeaf elem\<close> is the file name below \<open>dir\<close> that the joined
  path denotes, for an element whose only separators are trailing ones (as every element the
  program joins is: the short name of a hook is \<^verbatim>\<open>/\<close> or has no separator, see
  \<open>Base_shape\<close> below).
\<close>

definition JoinLeaf :: "string \<Rightarrow> string" where
  "JoinLeaf elem = rev (dropWhile (\<lambda>c. c = CHR ''/'') (rev elem))"

subsection \<open>Reading lines: \<^verbatim>\<open>bufio.Scanner\<close> with \<^verbatim>\<open>ScanLines\<close>\<close>

text \<open>
  The raw lines of a text: the bytes between line feeds; text after the last line feed is
  a line when it is not empty.
\<close>

fun raw_lines :: "string \<Rightarrow> string list" where
  "raw_lines [] = []"
| "raw_lines (c # cs) =
     (if c = CHR 0x0A then [] # raw_lines cs
      else (case raw_lines cs of [] \<Rightarrow> [[c]] | l # ls \<Rightarrow> (c # l) # ls))"

text \<open>\<^verbatim>\<open>dropCR\<close>: one trailing carriage return is removed from a token.\<close>

definition dropCR :: "string \<Rightarrow> string" where
  "dropCR l = (if l \<noteq> [] \<and> last l = CHR 0x0D then butlast l else l)"

text \<open>
  The scanner's buffer holds at most \<open>MaxScanTokenSize\<close> bytes; a line that does not fit
  (with its line feed, or before the end of the input is seen) ends the scan with
  \<open>ErrTooLong\<close>, which \<^verbatim>\<open>sc.Err()\<close> reports after the loop.
\<close>

definition MaxScanTokenSize :: nat where
  "MaxScanTokenSize = 64 * 1024"

definition scan_lines :: "string \<Rightarrow> error + string list" where
  "scan_lines content =
     (let ls = raw_lines content
      in if list_all (\<lambda>l. length l < MaxScanTokenSize) ls then Inr (map dropCR ls)
         else Inl ErrTooLong)"

subsection \<open>Hook descriptors\<close>

text \<open>
  The program uses three operations of the \<^verbatim>\<open>net/url\<close> package: \<^verbatim>\<open>url.Parse\<close>,
  the \<^verbatim>\<open>String\<close> method and the \<^verbatim>\<open>Path\<close> field of a parsed URL. The package is not
  part of the repository, so the program is modelled over any implementation of them;
  \<open>go_url\<close> below is the implementation of the Go distribution.
\<close>

record 'u url_lib =
  url_Parse :: "string \<Rightarrow> error + 'u"
  url_String :: "'u \<Rightarrow> string"
  url_Path :: "'u \<Rightarrow> string"

text \<open>
  A value of the interface \<^verbatim>\<open>Hook\<close> is a \<^verbatim>\<open>*UrlHook\<close>, a \<^verbatim>\<open>*FileHook\<close> or nil.
\<close>

datatype 'u Hook = UrlHook 'u | FileHook string | NilHook

definition ParseUrlHook :: "'u url_lib \<Rightarrow> string \<Rightarrow> error + 'u Hook" where
  "ParseUrlHook L s =
     (if \<not> (HasPrefix s ''http://'' \<or> HasPrefix s ''https://'') then Inl (NotHttpUrl s)
      else (case url_Parse L s of
              Inl err \<Rightarrow> Inl err
            | Inr url \<Rightarrow> Inr (UrlHook url)))"

definition ParseFileHook :: "string \<Rightarrow> error + 'u Hook" where
  "ParseFileHook s = Inr (FileHook s)"

text \<open>
  The methods of a hook. On the nil hook a method call panics, which is the result \<open>None\<close>.
\<close>

fun hook_String :: "'u url_lib \<Rightarrow> 'u Hook \<Rightarrow> string option" where
  "hook_String L (UrlHook url) = Some (url_String L url)"
| "hook_String L (FileHook path) = Some path"
| "hook_String L NilHook = None"

fun hook_Name :: "'u url_lib \<Rightarrow> 'u Hook \<Rightarrow> string option" where
  "hook_Name L (UrlHook url) = Some (Base (url_Path L url))"
| "hook_Name L (FileHook path) = Some (Base path)"
| "hook_Name L NilHook = None"

text \<open>
  ParseHookString tries the parsers in order and returns the first hook parsed without an
  error. The error variable returned after the loop is never assigned (the loop declares
  its own), so falling out of the loop returns a nil hook and a nil error.
\<close>

fun try_parsers :: "(string \<Rightarrow> error + 'u Hook) list \<Rightarrow> string \<Rightarrow> error + 'u Hook" where
  "try_parsers [] s = Inr NilHook"
| "try_parsers (parse # parsers) s =
     (case parse s of
        Inl err \<Rightarrow> try_parsers parsers s
      | Inr h \<Rightarrow> Inr h)"

definition ParseHookString :: "'u url_lib \<Rightarrow> string \<Rightarrow> error + 'u Hook" where
  "ParseHookString L s = try_parsers [ParseUrlHook L, ParseFileHook] s"

text \<open>The descriptor that ParseHookString resolves a string to.\<close>

definition resolved :: "'u url_lib \<Rightarrow> string \<Rightarrow> 'u Hook" where
  "resolved L s = (case ParseHookString L s of Inl err \<Rightarrow> NilHook | Inr h \<Rightarrow> h)"

subsection \<open>The world: git directory, registry files, installed directories\<close>

text \<open>The result of \<^verbatim>\<open>os.Stat\<close> on a path.\<close>

datatype stat = IsDir | IsFile | NoEntry | StatFails

text \<open>
  An entry of an installed directory: a regular file with its content, a symbolic link
  with its target, or a subdirectory (empty or not).
\<close>

datatype entry = Regular string | Symlink string | Subdir bool

text \<open>
  What is at the path of an installed directory: nothing, something that is not a
  directory, or a directory with its entries by name.
\<close>

datatype node = Absent | NotDir | Dir "(string \<times> entry) list"

text \<open>A child process: the path of the program and its arguments.\<close>

type_synonym proc = "string \<times> string list"

record world =
  git_dir :: "string option"
    \<comment> \<open>the absolute path printed by \<^verbatim>\<open>git rev-parse --git-dir\<close>, if git succeeds\<close>
  rebase_merge :: stat
    \<comment> \<open>\<^verbatim>\<open><git-dir>/rebase-merge\<close>\<close>
  rebase_apply :: stat
    \<comment> \<open>\<^verbatim>\<open><git-dir>/rebase-apply\<close>\<close>
  hooks_file :: "string \<Rightarrow> string option"
    \<comment> \<open>the content of \<^verbatim>\<open><git-dir>/hooks/<timing>.hooks\<close>, if the file exists\<close>
  installed :: "string \<Rightarrow> node"
    \<comment> \<open>\<^verbatim>\<open><git-dir>/hooks/<timing>.installed\<close>\<close>
  http_get :: "string \<Rightarrow> error + string"
    \<comment> \<open>the body that \<^verbatim>\<open>http.Get\<close> and \<^verbatim>\<open>ioutil.ReadAll\<close> give for a URL\<close>
  write_through :: "string \<Rightarrow> string \<Rightarrow> (string \<times> entry) list \<Rightarrow> error + (string \<times> entry) list"
    \<comment> \<open>writing data to an existing symbolic link (by its target): the entries afterwards\<close>
  child :: "proc list \<Rightarrow> proc \<Rightarrow> error option"
    \<comment> \<open>the outcome of running a child process, after the processes run before it\<close>

definition set_installed :: "world \<Rightarrow> string \<Rightarrow> (string \<times> entry) list \<Rightarrow> world" where
  "set_installed w timing es = w\<lparr>installed := (installed w)(timing := Dir es)\<rparr>"

definition gitDirPath :: "world \<Rightarrow> error + string" where
  "gitDirPath w = (case git_dir w of None \<Rightarrow> Inl GitError | Some d \<Rightarrow> Inr d)"

definition directoryExists :: "stat \<Rightarrow> error + bool" where
  "directoryExists st =
     (case st of
        NoEntry \<Rightarrow> Inr False
      | StatFails \<Rightarrow> Inl EIO
      | IsDir \<Rightarrow> Inr True
      | IsFile \<Rightarrow> Inr False)"

definition gitRebaseInProgress :: "world \<Rightarrow> error + bool" where
  "gitRebaseInProgress w =
     (case gitDirPath w of
        Inl err \<Rightarrow> Inl err
      | Inr d \<Rightarrow>
          (case directoryExists (rebase_merge w) of
             Inl err \<Rightarrow> Inl err
           | Inr mergeExists \<Rightarrow>
               (case directoryExists (rebase_apply w) of
                  Inl err \<Rightarrow> Inl err
                | Inr rebaseExists \<Rightarrow> Inr (mergeExists \<or> rebaseExists))))"

subsection \<open>File system operations on an installed directory\<close>

text \<open>\<^verbatim>\<open>os.MkdirAll\<close>: the entries of the directory once it exists.\<close>

definition MkdirAll :: "node \<Rightarrow> error + (string \<times> entry) list" where
  "MkdirAll n = (case n of Absent \<Rightarrow> Inr [] | NotDir \<Rightarrow> Inl ENOTDIR | Dir es \<Rightarrow> Inr es)"

text \<open>
  \<^verbatim>\<open>filepath.Glob(dir + "/*")\<close>: the names of all entries, sorted. The pattern
  \<^verbatim>\<open>*\<close> of Go matches names with a leading dot too, and Glob ignores errors of reading
  the directory.
\<close>

definition Glob :: "node \<Rightarrow> string list" where
  "Glob n = (case n of Dir es \<Rightarrow> sort (map fst es) | _ \<Rightarrow> [])"


text \<open>
  \<^verbatim>\<open>os.Symlink(target, path)\<close>: fails when the path exists, and for an empty target.
\<close>

definition os_Symlink :: "world \<Rightarrow> string \<Rightarrow> string \<Rightarrow> string \<Rightarrow> error option \<times> world" where
  "os_Symlink w timing target file =
     (case installed w timing of
        Absent \<Rightarrow> (Some ENOENT, w)
      | NotDir \<Rightarrow> (Some ENOTDIR, w)
      | Dir es \<Rightarrow>
          if target = [] then (Some ENOENT, w)
          else (case map_of es file of
                  Some e \<Rightarrow> (Some EEXIST, w)
                | None \<Rightarrow> (None, set_installed w timing (es @ [(file, Symlink target)]))))"

text \<open>
  \<^verbatim>\<open>ioutil.WriteFile(path, data, 0755)\<close>: creates the file, or truncates and rewrites an
  existing one; an existing symbolic link is followed.
\<close>

definition WriteFile :: "world \<Rightarrow> string \<Rightarrow> string \<Rightarrow> string \<Rightarrow> error option \<times> world" where
  "WriteFile w timing file data =
     (case installed w timing of
        Absent \<Rightarrow> (Some ENOENT, w)
      | NotDir \<Rightarrow> (Some ENOTDIR, w)
      | Dir es \<Rightarrow>
          (case map_of es file of
             None \<Rightarrow> (None, set_installed w timing (es @ [(file, Regular data)]))
           | Some (Regular old) \<Rightarrow>
               (None, set_installed w timing
                  (map (\<lambda>(k, v). if k = file then (k, Regular data) else (k, v)) es))
           | Some (Symlink target) \<Rightarrow>
               (case write_through w target data es of
                  Inl err \<Rightarrow> (Some err, w)
                | Inr es' \<Rightarrow> (None, set_installed w timing es'))
           | Some (Subdir nonempty) \<Rightarrow> (Some EISDIR, w)))"

subsection \<open>The program\<close>

definition timings :: "string list" where
  "timings =
     [''applypatch-msg'', ''pre-applypatch'', ''post-applypatch'', ''pre-commit'',
      ''prepare-commit-msg'', ''commit-msg'', ''post-commit'', ''pre-rebase'',
      ''post-checkout'', ''post-merge'', ''pre-receive'', ''update'', ''post-update'',
      ''pre-auto-gc'', ''post-rewrite'']"

definition isCorrectTiming :: "string \<Rightarrow> bool" where
  "isCorrectTiming timing = (timing \<in> set timings)"

definition unshiftTiming :: "string list \<Rightarrow> error + string \<times> string list" where
  "unshiftTiming args =
     (case args of
        [] \<Rightarrow> Inl WrongTiming
      | a # rest \<Rightarrow> if \<not> isCorrectTiming a then Inl WrongTiming else Inr (a, rest))"

text \<open>The install action of a hook at a file of the installed directory.\<close>

fun hook_Install :: "'u url_lib \<Rightarrow> world \<Rightarrow> string \<Rightarrow> 'u Hook \<Rightarrow> string \<Rightarrow> error option \<times> world" where
  "hook_Install L w timing (UrlHook url) file =
     (case http_get w (url_String L url) of
        Inl err \<Rightarrow> (Some err, w)
      | Inr b \<Rightarrow> WriteFile w timing file b)"
| "hook_Install L w timing (FileHook path) file = os_Symlink w timing path file"
| "hook_Install L w timing NilHook file = (Some NilDereference, w)"

fun parse_lines :: "'u url_lib \<Rightarrow> string list \<Rightarrow> error + 'u Hook list" where
  "parse_lines L [] = Inr []"
| "parse_lines L (line # lines) =
     (case ParseHookString L line of
        Inl err \<Rightarrow> Inl err
      | Inr h \<Rightarrow>
          (case parse_lines L lines of
             Inl err \<Rightarrow> Inl err
           | Inr hooks \<Rightarrow> Inr (h # hooks)))"

definition allHooks :: "'u url_lib \<Rightarrow> world \<Rightarrow> string \<Rightarrow> error + 'u Hook list" where
  "allHooks L w timing =
     (case gitDirPath w of
        Inl err \<Rightarrow> Inl err
      | Inr d \<Rightarrow>
          (case hooks_file w timing of
             None \<Rightarrow> Inl ENOENT
           | Some content \<Rightarrow>
               (case scan_lines content of
                  Inl err \<Rightarrow> Inl err
                | Inr texts \<Rightarrow>
                    parse_lines L (filter (\<lambda>text. length (TrimSpace text) > 0) texts))))"

text \<open>
  The file name of the artifact with index \<open>i\<close> for a hook named \<open>name\<close>: the leaf of
  \<^verbatim>\<open>filepath.Join(d, fmt.Sprintf("%d-%s", i, h.Name()))\<close>.
\<close>

definition artifact_file :: "nat \<Rightarrow> string \<Rightarrow> string" where
  "artifact_file i name = JoinLeaf (itoa i @ ''-'' @ name)"

definition updateHookScript ::
  "'u url_lib \<Rightarrow> world \<Rightarrow> string \<Rightarrow> nat \<Rightarrow> 'u Hook \<Rightarrow> error option \<times> world" where
  "updateHookScript L w timing i h =
     (case gitDirPath w of
        Inl err \<Rightarrow> (Some err, w)
      | Inr d \<Rightarrow>
          (case MkdirAll (installed w timing) of
             Inl err \<Rightarrow> (Some err, w)
           | Inr es \<Rightarrow>
               (let w1 = set_installed w timing es
                in case hook_Name L h of
                     None \<Rightarrow> (Some NilDereference, w1)
                   | Some name \<Rightarrow> hook_Install L w1 timing h (artifact_file i name))))"




text \<open>
  installHook: the error of reading the registry is overwritten by the next assignment,
  and the hooks read are then the nil slice, of length 0. The registry file is opened for
  appending (and created if absent) after the install action has returned without error.
\<close>

definition append_registry :: "world \<Rightarrow> string \<Rightarrow> string \<Rightarrow> world" where
  "append_registry w timing line =
     w\<lparr>hooks_file := (hooks_file w)
         (timing := Some ((case hooks_file w timing of None \<Rightarrow> [] | Some old \<Rightarrow> old) @ line))\<rparr>"

definition installHook :: "'u url_lib \<Rightarrow> world \<Rightarrow> string \<Rightarrow> string \<Rightarrow> error option \<times> world" where
  "installHook L w timing s =
     (case ParseHookString L s of
        Inl err \<Rightarrow> (Some err, w)
      | Inr h \<Rightarrow>
          (let hooks = (case allHooks L w timing of Inl err \<Rightarrow> [] | Inr hs \<Rightarrow> hs)
           in case updateHookScript L w timing (length hooks) h of
                (Some err, w1) \<Rightarrow> (Some err, w1)
              | (None, w1) \<Rightarrow>
                  (case gitDirPath w1 of
                     Inl err \<Rightarrow> (Some err, w1)
                   | Inr d \<Rightarrow>
                       (case hook_String L h of
                          None \<Rightarrow> (Some NilDereference, w1)
                        | Some str \<Rightarrow> (None, append_registry w1 timing (str @ [CHR 0x0A]))))))"

text \<open>
  runTest returns its error and, made explicit here, the child processes it has run, in
  order. The path of an installed artifact is
  \<^verbatim>\<open><git-dir>/hooks/<timing>.installed/<name>\<close>.
\<close>

definition installed_path :: "string \<Rightarrow> string \<Rightarrow> string \<Rightarrow> string" where
  "installed_path d timing name =
     (if d = ''/'' then [] else d) @ ''/hooks/'' @ timing @ ''.installed/'' @ name"

fun run_scripts :: "world \<Rightarrow> proc list \<Rightarrow> string list \<Rightarrow> error option \<times> proc list" where
  "run_scripts w trace [] = (None, trace)"
| "run_scripts w trace (script # matches) =
     (case child w trace (script, []) of
        Some err \<Rightarrow> (Some err, trace @ [(script, [])])
      | None \<Rightarrow> run_scripts w (trace @ [(script, [])]) matches)"

definition runTest :: "world \<Rightarrow> string \<Rightarrow> string list \<Rightarrow> error option \<times> proc list" where
  "runTest w timing args =
     (case gitRebaseInProgress w of
        Inl err \<Rightarrow> (Some err, [])
      | Inr progress \<Rightarrow>
          if progress then (None, [])
          else (case gitDirPath w of
                  Inl err \<Rightarrow> (Some err, [])
                | Inr d \<Rightarrow>
                    run_scripts w []
                      (map (installed_path d timing) (Glob (installed w timing)))))"

text \<open>
  The action of the \<^verbatim>\<open>test\<close> command: a wrong timing shows the help and exits with
  status 1; any further arguments are passed to runTest.
\<close>

definition test_action :: "world \<Rightarrow> string list \<Rightarrow> error option \<times> proc list" where
  "test_action w cli_args =
     (case unshiftTiming cli_args of
        Inl err \<Rightarrow> (Some err, [])
      | Inr (timing, args) \<Rightarrow> runTest w timing args)"

subsection \<open>What a sync is expected to leave in the installed directory\<close>



subsection \<open>The \<^verbatim>\<open>net/url\<close> package of the Go distribution\<close>

text \<open>
  \<^verbatim>\<open>url.Parse\<close> and \<^verbatim>\<open>(*URL).String\<close> as of Go 1.21, on byte strings. It is
  used below to evaluate the program on concrete registration strings.
\<close>

record URL =
  Scheme :: string
  Opaque :: string
  User :: "(string \<times> string option) option"
  Host :: string
  Path :: string
  RawPath :: string
  OmitHost :: bool
  ForceQuery :: bool
  RawQuery :: string
  Fragment :: string
  RawFragment :: string

definition empty_URL :: URL where
  "empty_URL =
     \<lparr>Scheme = [], Opaque = [], User = None, Host = [], Path = [], RawPath = [],
      OmitHost = False, ForceQuery = False, RawQuery = [], Fragment = [], RawFragment = []\<rparr>"

datatype encoding =
  encodePath | encodePathSegment | encodeHost | encodeZone | encodeUserPassword
  | encodeQueryComponent | encodeFragment

definition is_digit :: "char \<Rightarrow> bool" where
  "is_digit c = (CHR ''0'' \<le> c \<and> c \<le> CHR ''9'')"

definition is_alpha :: "char \<Rightarrow> bool" where
  "is_alpha c = (CHR ''a'' \<le> c \<and> c \<le> CHR ''z'' \<or> CHR ''A'' \<le> c \<and> c \<le> CHR ''Z'')"

definition shouldEscape :: "char \<Rightarrow> encoding \<Rightarrow> bool" where
  "shouldEscape c mode =
     (if is_alpha c \<or> is_digit c then False
      else if (mode = encodeHost \<or> mode = encodeZone) \<and>
              c \<in> set (''!$&()*+,;=:[]<>'' @ [CHR 0x27, CHR 0x22]) then False
      else if c \<in> set ''-_.~'' then False
      else if c \<in> set ''$&+,/:;=?@'' \<and> mode = encodePath then c = CHR ''?''
      else if c \<in> set ''$&+,/:;=?@'' \<and> mode = encodePathSegment then c \<in> set ''/;,?''
      else if c \<in> set ''$&+,/:;=?@'' \<and> mode = encodeUserPassword then c \<in> set ''@/?:''
      else if c \<in> set ''$&+,/:;=?@'' \<and> mode = encodeQueryComponent then True
      else if c \<in> set ''$&+,/:;=?@'' \<and> mode = encodeFragment then False
      else if mode = encodeFragment \<and> c \<in> set ''!()*'' then False
      else True)"

definition ishex :: "char \<Rightarrow> bool" where
  "ishex c =
     (is_digit c \<or> CHR ''a'' \<le> c \<and> c \<le> CHR ''f'' \<or> CHR ''A'' \<le> c \<and> c \<le> CHR ''F'')"

definition unhex :: "char \<Rightarrow> nat" where
  "unhex c =
     (if is_digit c then of_char c - 48
      else if CHR ''a'' \<le> c \<and> c \<le> CHR ''f'' then of_char c - 97 + 10
      else if CHR ''A'' \<le> c \<and> c \<le> CHR ''F'' then of_char c - 65 + 10
      else 0)"

text \<open>unescape: the pass that checks the escapes, then the pass that decodes them.\<close>

fun unescape_check :: "encoding \<Rightarrow> string \<Rightarrow> error option" where
  "unescape_check mode [] = None"
| "unescape_check mode (c # s) =
     (if c = CHR ''%'' then
        (case s of
           a # b # rest \<Rightarrow>
             if \<not> ishex a \<or> \<not> ishex b
             then Some (UrlParseError (''invalid URL escape '' @ [c, a, b]))
             else if mode = encodeHost \<and> unhex a < 8 \<and> [c, a, b] \<noteq> ''%25''
             then Some (UrlParseError (''invalid URL escape '' @ [c, a, b]))
             else if mode = encodeZone \<and> [c, a, b] \<noteq> ''%25''
                     \<and> char_of (unhex a * 16 + unhex b) \<noteq> CHR '' ''
                     \<and> shouldEscape (char_of (unhex a * 16 + unhex b)) encodeHost
             then Some (UrlParseError (''invalid URL escape '' @ [c, a, b]))
             else unescape_check mode rest
         | _ \<Rightarrow> Some (UrlParseError (''invalid URL escape '' @ c # s)))
      else if (mode = encodeHost \<or> mode = encodeZone) \<and> c \<noteq> CHR ''+''
              \<and> (of_char c :: nat) < 128 \<and> shouldEscape c encodeHost
      then Some (UrlParseError (''invalid character in host name '' @ [c]))
      else unescape_check mode s)"

fun unescape_decode :: "encoding \<Rightarrow> string \<Rightarrow> string" where
  "unescape_decode mode [] = []"
| "unescape_decode mode (c # s) =
     (if c = CHR ''%'' then
        (case s of
           a # b # rest \<Rightarrow> char_of (unhex a * 16 + unhex b) # unescape_decode mode rest
         | _ \<Rightarrow> [])
      else if c = CHR ''+'' \<and> mode = encodeQueryComponent
      then CHR '' '' # unescape_decode mode s
      else c # unescape_decode mode s)"

definition unescape :: "string \<Rightarrow> encoding \<Rightarrow> error + string" where
  "unescape s mode =
     (case unescape_check mode s of
        Some err \<Rightarrow> Inl err
      | None \<Rightarrow> Inr (unescape_decode mode s))"

definition upperhex :: "nat \<Rightarrow> char" where
  "upperhex n = ''0123456789ABCDEF'' ! n"

definition escape :: "string \<Rightarrow> encoding \<Rightarrow> string" where
  "escape s mode =
     concat (map (\<lambda>c.
       if shouldEscape c mode then
         (if c = CHR '' '' \<and> mode = encodeQueryComponent then ''+''
          else [CHR ''%'', upperhex (of_char c div 16), upperhex (of_char c mod 16)])
       else [c]) s)"

definition validEncoded :: "string \<Rightarrow> encoding \<Rightarrow> bool" where
  "validEncoded s mode =
     list_all (\<lambda>c. c \<in> set (''!$&()*+,;=:@[]%'' @ [CHR 0x27]) \<or> \<not> shouldEscape c mode) s"

fun getScheme_scan :: "string \<Rightarrow> nat \<Rightarrow> string \<Rightarrow> error + string \<times> string" where
  "getScheme_scan rawURL i [] = Inr ([], rawURL)"
| "getScheme_scan rawURL i (c # cs) =
     (if is_alpha c then getScheme_scan rawURL (Suc i) cs
      else if is_digit c \<or> c \<in> set ''+-.'' then
        (if i = 0 then Inr ([], rawURL) else getScheme_scan rawURL (Suc i) cs)
      else if c = CHR '':'' then
        (if i = 0 then Inl (UrlParseError ''missing protocol scheme'')
         else Inr (take i rawURL, drop (Suc i) rawURL))
      else Inr ([], rawURL))"

definition getScheme :: "string \<Rightarrow> error + string \<times> string" where
  "getScheme rawURL = getScheme_scan rawURL 0 rawURL"

definition ToLower :: "string \<Rightarrow> string" where
  "ToLower s =
     map (\<lambda>c. if CHR ''A'' \<le> c \<and> c \<le> CHR ''Z'' then char_of (of_char c + (32::nat)) else c) s"

text \<open>
  \<^verbatim>\<open>strings.Cut\<close> at the first occurrence of a byte, and the split at its last
  occurrence (\<^verbatim>\<open>strings.LastIndex\<close>).
\<close>

definition cut_before :: "char \<Rightarrow> string \<Rightarrow> string" where
  "cut_before c s = takeWhile (\<lambda>x. x \<noteq> c) s"

definition cut_after :: "char \<Rightarrow> string \<Rightarrow> string" where
  "cut_after c s = drop 1 (dropWhile (\<lambda>x. x \<noteq> c) s)"

definition before_last :: "char \<Rightarrow> string \<Rightarrow> string" where
  "before_last c s = rev (drop 1 (dropWhile (\<lambda>x. x \<noteq> c) (rev s)))"

definition after_last :: "char \<Rightarrow> string \<Rightarrow> string" where
  "after_last c s = rev (takeWhile (\<lambda>x. x \<noteq> c) (rev s))"

fun index_sub :: "string \<Rightarrow> string \<Rightarrow> nat option" where
  "index_sub sub [] = (if sub = [] then Some 0 else None)"
| "index_sub sub (c # cs) =
     (if HasPrefix (c # cs) sub then Some 0 else map_option Suc (index_sub sub cs))"

definition validOptionalPort :: "string \<Rightarrow> bool" where
  "validOptionalPort port =
     (case port of [] \<Rightarrow> True | c # ds \<Rightarrow> c = CHR '':'' \<and> list_all is_digit ds)"

definition validUserinfo :: "string \<Rightarrow> bool" where
  "validUserinfo s =
     list_all (\<lambda>c. is_alpha c \<or> is_digit c \<or> c \<in> set (''-._:~!$&()*+,;=%@'' @ [CHR 0x27])) s"

definition parseHost :: "string \<Rightarrow> error + string" where
  "parseHost host =
     (if HasPrefix host ''['' then
        (if CHR '']'' \<notin> set host then Inl (UrlParseError ''missing ] in host'')
         else if \<not> validOptionalPort (after_last CHR '']'' host)
         then Inl (UrlParseError ''invalid port after host'')
         else (case index_sub ''%25'' (before_last CHR '']'' host) of
                 Some zone \<Rightarrow>
                   (case unescape (take zone host) encodeHost of
                      Inl err \<Rightarrow> Inl err
                    | Inr host1 \<Rightarrow>
                        (case unescape (drop zone (before_last CHR '']'' host)) encodeZone of
                           Inl err \<Rightarrow> Inl err
                         | Inr host2 \<Rightarrow>
                             (case unescape (CHR '']'' # after_last CHR '']'' host) encodeHost of
                                Inl err \<Rightarrow> Inl err
                              | Inr host3 \<Rightarrow> Inr (host1 @ host2 @ host3))))
               | None \<Rightarrow> unescape host encodeHost))
      else if CHR '':'' \<in> set host \<and> \<not> validOptionalPort (CHR '':'' # after_last CHR '':'' host)
      then Inl (UrlParseError ''invalid port after host'')
      else unescape host encodeHost)"

definition parseAuthority :: "string \<Rightarrow> error + (string \<times> string option) option \<times> string" where
  "parseAuthority authority =
     (case parseHost (if CHR ''@'' \<in> set authority then after_last CHR ''@'' authority
                      else authority) of
        Inl err \<Rightarrow> Inl err
      | Inr host \<Rightarrow>
          if CHR ''@'' \<notin> set authority then Inr (None, host)
          else (let userinfo = before_last CHR ''@'' authority
                in if \<not> validUserinfo userinfo then Inl (UrlParseError ''invalid userinfo'')
                   else if CHR '':'' \<notin> set userinfo then
                     (case unescape userinfo encodeUserPassword of
                        Inl err \<Rightarrow> Inl err
                      | Inr username \<Rightarrow> Inr (Some (username, None), host))
                   else
                     (case unescape (cut_before CHR '':'' userinfo) encodeUserPassword of
                        Inl err \<Rightarrow> Inl err
                      | Inr username \<Rightarrow>
                          (case unescape (cut_after CHR '':'' userinfo) encodeUserPassword of
                             Inl err \<Rightarrow> Inl err
                           | Inr password \<Rightarrow> Inr (Some (username, Some password), host)))))"

definition setPath :: "URL \<Rightarrow> string \<Rightarrow> error + URL" where
  "setPath u p =
     (case unescape p encodePath of
        Inl err \<Rightarrow> Inl err
      | Inr path \<Rightarrow>
          Inr (u\<lparr>Path := path, RawPath := (if p = escape path encodePath then [] else p)\<rparr>))"

definition setFragment :: "URL \<Rightarrow> string \<Rightarrow> error + URL" where
  "setFragment u f =
     (case unescape f encodeFragment of
        Inl err \<Rightarrow> Inl err
      | Inr frag \<Rightarrow>
          Inr (u\<lparr>Fragment := frag,
                 RawFragment := (if f = escape frag encodeFragment then [] else f)\<rparr>))"

text \<open>The internal \<^verbatim>\<open>parse(rawURL, viaRequest = false)\<close>, on the URL without its fragment.\<close>

definition go_parse :: "string \<Rightarrow> error + URL" where
  "go_parse rawURL =
     (if list_ex (\<lambda>b. b < CHR '' '' \<or> b = CHR 0x7F) rawURL
      then Inl (UrlParseError ''invalid control character in URL'')
      else if rawURL = ''*'' then Inr (empty_URL\<lparr>Path := ''*''\<rparr>)
      else
        (case getScheme rawURL of
           Inl err \<Rightarrow> Inl err
         | Inr (scheme, rest0) \<Rightarrow>
             (let force = (rest0 \<noteq> [] \<and> last rest0 = CHR ''?''
                            \<and> length (filter (\<lambda>c. c = CHR ''?'') rest0) = 1);
                  rest = (if force then butlast rest0 else cut_before CHR ''?'' rest0);
                  url = empty_URL\<lparr>Scheme := ToLower scheme, ForceQuery := force,
                          RawQuery := (if force then [] else cut_after CHR ''?'' rest0)\<rparr>
              in if \<not> HasPrefix rest ''/'' \<and> Scheme url \<noteq> [] then Inr (url\<lparr>Opaque := rest\<rparr>)
                 else if \<not> HasPrefix rest ''/'' \<and> CHR '':'' \<in> set (cut_before CHR ''/'' rest)
                 then Inl (UrlParseError ''first path segment in URL cannot contain colon'')
                 else if (Scheme url \<noteq> [] \<or> \<not> HasPrefix rest ''///'') \<and> HasPrefix rest ''//''
                 then
                   (case parseAuthority (cut_before CHR ''/'' (drop 2 rest)) of
                      Inl err \<Rightarrow> Inl err
                    | Inr (user, host) \<Rightarrow>
                        setPath (url\<lparr>User := user, Host := host\<rparr>)
                          (dropWhile (\<lambda>x. x \<noteq> CHR ''/'') (drop 2 rest)))
                 else if Scheme url \<noteq> [] \<and> HasPrefix rest ''/''
                 then setPath (url\<lparr>OmitHost := True\<rparr>) rest
                 else setPath url rest)))"

definition go_Parse :: "string \<Rightarrow> error + URL" where
  "go_Parse rawURL =
     (case go_parse (cut_before CHR ''#'' rawURL) of
        Inl err \<Rightarrow> Inl err
      | Inr url \<Rightarrow>
          if cut_after CHR ''#'' rawURL = [] then Inr url
          else setFragment url (cut_after CHR ''#'' rawURL))"

definition EscapedPath :: "URL \<Rightarrow> string" where
  "EscapedPath u =
     (if RawPath u \<noteq> [] \<and> validEncoded (RawPath u) encodePath
         \<and> unescape (RawPath u) encodePath = Inr (Path u) then RawPath u
      else if Path u = ''*'' then ''*''
      else escape (Path u) encodePath)"

definition EscapedFragment :: "URL \<Rightarrow> string" where
  "EscapedFragment u =
     (if RawFragment u \<noteq> [] \<and> validEncoded (RawFragment u) encodeFragment
         \<and> unescape (RawFragment u) encodeFragment = Inr (Fragment u) then RawFragment u
      else escape (Fragment u) encodeFragment)"

definition Userinfo_String :: "string \<times> string option \<Rightarrow> string" where
  "Userinfo_String ui =
     escape (fst ui) encodeUserPassword @
     (case snd ui of None \<Rightarrow> [] | Some password \<Rightarrow> '':'' @ escape password encodeUserPassword)"

definition go_String :: "URL \<Rightarrow> string" where
  "go_String u =
     (let buf0 = (if Scheme u \<noteq> [] then Scheme u @ '':'' else []);
          buf1 =
            (if Opaque u \<noteq> [] then buf0 @ Opaque u
             else
               (let buf2 =
                      (if Scheme u \<noteq> [] \<or> Host u \<noteq> [] \<or> User u \<noteq> None then
                         (if OmitHost u \<and> Host u = [] \<and> User u = None then buf0
                          else buf0
                            @ (if Host u \<noteq> [] \<or> Path u \<noteq> [] \<or> User u \<noteq> None then ''//'' else [])
                            @ (case User u of None \<Rightarrow> [] | Some ui \<Rightarrow> Userinfo_String ui @ ''@'')
                            @ (if Host u \<noteq> [] then escape (Host u) encodeHost else []))
                       else buf0);
                    path = EscapedPath u;
                    buf3 = (if path \<noteq> [] \<and> hd path \<noteq> CHR ''/'' \<and> Host u \<noteq> []
                            then buf2 @ ''/'' else buf2);
                    buf4 = (if buf3 = [] \<and> CHR '':'' \<in> set (cut_before CHR ''/'' path)
                            then buf3 @ ''./'' else buf3)
                in buf4 @ path))
      in buf1
         @ (if ForceQuery u \<or> RawQuery u \<noteq> [] then ''?'' @ RawQuery u else [])
         @ (if Fragment u \<noteq> [] then ''#'' @ EscapedFragment u else []))"

text \<open>The URL that \<^verbatim>\<open>https://example.com/fmt.sh\<close> parses to.\<close>

definition fmt_URL :: URL where
  "fmt_URL = empty_URL\<lparr>Scheme := ''https'', Host := ''example.com'', Path := ''/fmt.sh''\<rparr>"

definition go_url :: "URL url_lib" where
  "go_url = \<lparr>url_Parse = go_Parse, url_String = go_String, url_Path = Path\<rparr>"

subsection \<open>Example worlds\<close>

text \<open>
  A repository at \<^verbatim>\<open>/repo\<close> with no rebase in progress, no registry file, no installed
  directory, no reachable URL, and child processes that all succeed.
\<close>

definition base_world :: world where
  "base_world =
     \<lparr>git_dir = Some ''/repo/.git'', rebase_merge = NoEntry, rebase_apply = NoEntry,
      hooks_file = (\<lambda>timing. None), installed = (\<lambda>timing. Absent),
      http_get = (\<lambda>u. Inl HttpError), write_through = (\<lambda>target data es. Inl EIO),
      child = (\<lambda>trace p. None)\<rparr>"

text \<open>Three installed artifacts; in \<open>failing_world\<close> the second one exits with status 1.\<close>

definition three_artifacts :: "(string \<times> entry) list" where
  "three_artifacts =
     [(''0-lint.sh'', Symlink ''./scripts/lint.sh''),
      (''1-fmt.sh'', Regular ''exit 1''),
      (''2-test.sh'', Symlink ''./scripts/test.sh'')]"


text \<open>The same repository with a registry file for \<^verbatim>\<open>pre-commit\<close>.\<close>

definition registry_world :: "string \<Rightarrow> world" where
  "registry_world content =
     base_world\<lparr>hooks_file := (\<lambda>timing. None)(''pre-commit'' := Some content)\<rparr>"





section \<open>Properties\<close>

subsection \<open>Decimal indices and artifact names\<close>











subsection \<open>Lines of a registry file\<close>

text \<open>
  Appending a line to a text that is empty or ends with a line feed appends one raw line.
\<close>

lemma raw_lines_Nil_iff: "raw_lines s = [] \<longleftrightarrow> s = []"
  by (cases s) (auto split: list.splits)

lemma raw_lines_no_newline:
  "CHR 0x0A \<notin> set s \<Longrightarrow> s \<noteq> [] \<Longrightarrow> raw_lines s = [s]"
proof (induction s)
  case Nil
  then show ?case by simp
next
  case (Cons c s)
  then show ?case by (cases s) auto
qed

lemma raw_lines_terminated:
  "CHR 0x0A \<notin> set s \<Longrightarrow> raw_lines (s @ [CHR 0x0A]) = [s]"
  by (induction s) auto

lemma raw_lines_append:
  "old = [] \<or> last old = CHR 0x0A \<Longrightarrow> raw_lines (old @ t) = raw_lines old @ raw_lines t"
proof (induction old)
  case Nil
  show ?case by simp
next
  case (Cons c cs)
  show ?case
  proof (cases "c = CHR 0x0A")
    case True
    from Cons.prems have "cs = [] \<or> last cs = CHR 0x0A" by (auto split: if_splits)
    from Cons.IH [OF this] True show ?thesis by simp
  next
    case False
    with Cons.prems have cs: "cs \<noteq> []" and "last cs = CHR 0x0A" by (auto split: if_splits)
    then have ih: "raw_lines (cs @ t) = raw_lines cs @ raw_lines t" using Cons.IH by simp
    from cs obtain l ls where "raw_lines cs = l # ls"
      by (cases "raw_lines cs") (simp_all add: raw_lines_Nil_iff)
    with ih False show ?thesis by simp
  qed
qed

subsection \<open>The resolver never fails\<close>

text \<open>
  ParseFileHook accepts every string, so ParseHookString returns a hook that is not nil.
\<close>

lemma ParseHookString_cases:
  "ParseHookString L s =
     (case ParseUrlHook L s of Inl err \<Rightarrow> Inr (FileHook s) | Inr h \<Rightarrow> Inr h)"
  by (simp add: ParseHookString_def ParseFileHook_def split: sum.splits)

lemma ParseUrlHook_UrlHook: "ParseUrlHook L s = Inr h \<Longrightarrow> \<exists>u. h = UrlHook u"
  by (auto simp: ParseUrlHook_def split: if_splits sum.splits)


lemma ParseHookString_total: "\<exists>h. ParseHookString L s = Inr h \<and> h \<noteq> NilHook"
  by (cases "ParseUrlHook L s")
     (auto simp: ParseHookString_cases dest: ParseUrlHook_UrlHook)

lemma hook_String_Some: "h \<noteq> NilHook \<Longrightarrow> \<exists>str. hook_String L h = Some str"
  by (cases h) simp_all

lemma parse_lines_resolved: "parse_lines L ls = Inr (map (resolved L) ls)"
proof (induction ls)
  case Nil
  show ?case by simp
next
  case (Cons l ls)
  obtain h where "ParseHookString L l = Inr h" using ParseHookString_total by blast
  with Cons show ?case by (simp add: resolved_def)
qed

lemma allHooks_char:
  assumes "git_dir w = Some d"
  shows "allHooks L w timing =
     (case hooks_file w timing of
        None \<Rightarrow> Inl ENOENT
      | Some content \<Rightarrow>
          if list_all (\<lambda>l. length l < MaxScanTokenSize) (raw_lines content)
          then Inr (map (resolved L)
                 (filter (\<lambda>l. TrimSpace l \<noteq> []) (map dropCR (raw_lines content))))
          else Inl ErrTooLong)"
  using assms
  by (simp add: allHooks_def gitDirPath_def scan_lines_def parse_lines_resolved
        split: option.splits)

subsection \<open>Frame of the install action\<close>

text \<open>The operations on an installed directory change nothing else of the world.\<close>

lemma installed_same:
  "installed w timing = n \<Longrightarrow> w\<lparr>installed := (installed w)(timing := n)\<rparr> = w"
proof -
  assume "installed w timing = n"
  then have "(installed w)(timing := n) = installed w" by auto
  then show ?thesis by simp
qed



lemma os_Symlink_frame:
  "os_Symlink w timing target file = (r, w') \<Longrightarrow>
   w' = w\<lparr>installed := (installed w)(timing := installed w' timing)\<rparr>"
  by (auto simp: os_Symlink_def set_installed_def installed_same
        split: node.splits if_splits option.splits)

lemma WriteFile_frame:
  "WriteFile w timing file data = (r, w') \<Longrightarrow>
   w' = w\<lparr>installed := (installed w)(timing := installed w' timing)\<rparr>"
  by (auto simp: WriteFile_def set_installed_def installed_same
        split: node.splits option.splits entry.splits sum.splits)

lemma hook_Install_frame:
  "hook_Install L w timing h file = (r, w') \<Longrightarrow>
   w' = w\<lparr>installed := (installed w)(timing := installed w' timing)\<rparr>"
  by (cases h) (auto split: sum.splits dest: WriteFile_frame os_Symlink_frame)

lemma updateHookScript_frame:
  assumes "updateHookScript L w timing i h = (r, w')"
  shows "w' = w\<lparr>installed := (installed w)(timing := installed w' timing)\<rparr>"
proof (cases "gitDirPath w")
  case (Inl e)
  with assms show ?thesis by (simp add: updateHookScript_def)
next
  case d: (Inr d)
  show ?thesis
  proof (cases "MkdirAll (installed w timing)")
    case (Inl e)
    with assms d show ?thesis by (simp add: updateHookScript_def)
  next
    case (Inr es)
    let ?w1 = "set_installed w timing es"
    show ?thesis
    proof (cases "hook_Name L h")
      case None
      with assms d Inr show ?thesis
        by (auto simp: updateHookScript_def set_installed_def)
    next
      case (Some name)
      with assms d Inr have "hook_Install L ?w1 timing h (artifact_file i name) = (r, w')"
        by (simp add: updateHookScript_def)
      from hook_Install_frame [OF this] show ?thesis
        by (simp add: set_installed_def)
    qed
  qed
qed

lemma updateHookScript_hooks_file:
  "updateHookScript L w timing i h = (r, w') \<Longrightarrow> hooks_file w' = hooks_file w"
  by (drule updateHookScript_frame) (erule ssubst, simp)

lemma updateHookScript_git_dir:
  "updateHookScript L w timing i h = (r, w') \<Longrightarrow> git_dir w' = git_dir w"
  by (drule updateHookScript_frame) (erule ssubst, simp)

lemma updateHookScript_ok_git_dir:
  "updateHookScript L w timing i h = (None, w') \<Longrightarrow> \<exists>d. git_dir w = Some d"
  by (cases "git_dir w") (simp_all add: updateHookScript_def gitDirPath_def)

lemma installHook_success:
  assumes "installHook L w timing s = (None, w')"
  shows "\<exists>h str w1 i d. ParseHookString L s = Inr h \<and> hook_String L h = Some str
           \<and> updateHookScript L w timing i h = (None, w1)
           \<and> git_dir w = Some d
           \<and> w' = append_registry w1 timing (str @ [CHR 0x0A])"
proof -
  obtain h where h: "ParseHookString L s = Inr h" "h \<noteq> NilHook"
    using ParseHookString_total by blast
  then obtain str where str: "hook_String L h = Some str"
    using hook_String_Some by blast
  define n where "n = length (case allHooks L w timing of Inl err \<Rightarrow> [] | Inr hs \<Rightarrow> hs)"
  obtain r w1 where u: "updateHookScript L w timing n h = (r, w1)"
    by (cases "updateHookScript L w timing n h")
  show ?thesis
  proof (cases r)
    case (Some e)
    with assms h u show ?thesis by (simp add: installHook_def n_def)
  next
    case None
    with u obtain d where d: "git_dir w = Some d"
      using updateHookScript_ok_git_dir by blast
    with u have "gitDirPath w1 = Inr d"
      by (simp add: gitDirPath_def updateHookScript_git_dir)
    with assms h u None str have "w' = append_registry w1 timing (str @ [CHR 0x0A])"
      by (simp add: installHook_def n_def)
    with h str u None d show ?thesis by blast
  qed
qed

subsection \<open>The loops of updateHooks\<close>









subsection \<open>The loop of runTest\<close>


lemma run_scripts_no_args:
  "run_scripts w tr0 ms = (r, tr) \<Longrightarrow> p \<in> set tr \<Longrightarrow> p \<in> set tr0 \<or> snd p = []"
proof (induction ms arbitrary: tr0)
  case Nil
  then show ?case by simp
next
  case (Cons m ms)
  show ?case
  proof (cases "child w tr0 (m, [])")
    case (Some e)
    with Cons.prems show ?thesis by auto
  next
    case None
    with Cons.prems have "run_scripts w (tr0 @ [(m, [])]) ms = (r, tr)" by simp
    from Cons.IH [OF this Cons.prems(2)] show ?thesis by auto
  qed
qed

subsection \<open>Values on concrete inputs\<close>

lemma pre_commit_timing: "isCorrectTiming ''pre-commit''"
  by (simp add: isCorrectTiming_def timings_def)

lemma itoa_0: "itoa 0 = ''0''"
  by code_simp

lemma itoa_Suc_0: "itoa (Suc 0) = ''1''"
  by code_simp

lemma Base_test: "Base ''./scripts/test.sh'' = ''test.sh''"
  by (simp add: Base_def)





lemma TrimSpace_a: "TrimSpace '' a '' = ''a''"
  by code_simp

lemma TrimSpace_blank: "TrimSpace ''  '' = []"
  by code_simp

lemma TrimSpace_space: "TrimSpace '' '' = []"
  by code_simp

lemma TrimSpace_lint: "TrimSpace ''./scripts/lint.sh'' = ''./scripts/lint.sh''"
  by code_simp

lemma TrimSpace_fmt: "TrimSpace ''https://example.com/fmt.sh'' = ''https://example.com/fmt.sh''"
  by code_simp

lemma TrimSpace_test: "TrimSpace ''./scripts/test.sh'' = ''./scripts/test.sh''"
  by code_simp


lemma go_Parse_bad: "go_Parse ''http://a/%zz'' = Inl (UrlParseError ''invalid URL escape %zz'')"
  by code_simp

lemma go_Parse_fmt: "go_Parse ''https://example.com/fmt.sh'' = Inr fmt_URL"
  by code_simp

lemma go_String_fmt: "go_String fmt_URL = ''https://example.com/fmt.sh''"
  by code_simp

lemma go_roundtrip_space:
  "map_sum id go_String (go_Parse ''http://www.google.com/a b?q=c+d'')
     = Inr ''http://www.google.com/a%20b?q=c+d''"
  by code_simp

lemma parse_test: "ParseHookString go_url ''./scripts/test.sh'' = Inr (FileHook ''./scripts/test.sh'')"
  by (simp add: ParseHookString_cases ParseUrlHook_def HasPrefix_def)

lemma parse_fmt: "ParseHookString go_url ''https://example.com/fmt.sh'' = Inr (UrlHook fmt_URL)"
  by (simp add: ParseHookString_cases ParseUrlHook_def HasPrefix_def go_url_def go_Parse_fmt)

lemma parse_lint: "ParseHookString go_url ''./scripts/lint.sh'' = Inr (FileHook ''./scripts/lint.sh'')"
  by (simp add: ParseHookString_cases ParseUrlHook_def HasPrefix_def)

lemma Glob_three: "Glob (Dir three_artifacts) = [''0-lint.sh'', ''1-fmt.sh'', ''2-test.sh'']"
  by (simp add: Glob_def three_artifacts_def)

lemma git_dir_registry_world: "git_dir (registry_world c) = Some ''/repo/.git''"
  by (simp add: registry_world_def base_world_def)



subsection \<open>The resolver\<close>

text \<open>
  Claim C4, as amended. For a registration string that ParseHookString resolves to a
  descriptor \<open>h\<close>: when the string has no \<^verbatim>\<open>http://\<close> or \<^verbatim>\<open>https://\<close> prefix, or has
  one and is rejected by \<^verbatim>\<open>url.Parse\<close>, \<open>h\<close> is the local hook of that string and its
  string form is the string itself, byte for byte. When the string has the prefix and
  parses as a URL, \<open>h\<close> is the remote hook of the parsed URL and its string form is what
  the \<^verbatim>\<open>String\<close> method of the URL library renders for it.
\<close>

theorem C4_reserialized_descriptor:
  assumes "ParseHookString L s = Inr h"
  shows "if HasPrefix s ''http://'' \<or> HasPrefix s ''https://''
         then (case url_Parse L s of
                 Inl err \<Rightarrow> h = FileHook s \<and> hook_String L h = Some s
               | Inr url \<Rightarrow> h = UrlHook url \<and> hook_String L h = Some (url_String L url))
         else h = FileHook s \<and> hook_String L h = Some s"
  using assms
  by (auto simp: ParseHookString_cases ParseUrlHook_def split: sum.splits if_splits)

text \<open>
  Claim C4 as stated fails for the URL form: a space in the path is accepted by
  \<^verbatim>\<open>url.Parse\<close> and rendered as \<^verbatim>\<open>%20\<close>.
\<close>

theorem C4_counterexample:
  "map_sum id (hook_String go_url) (ParseHookString go_url ''http://www.google.com/a b?q=c+d'')
     = Inr (Some ''http://www.google.com/a%20b?q=c+d'')
   \<and> ''http://www.google.com/a%20b?q=c+d'' \<noteq> ''http://www.google.com/a b?q=c+d''"
proof -
  obtain u where u: "go_Parse ''http://www.google.com/a b?q=c+d'' = Inr u"
    and s: "go_String u = ''http://www.google.com/a%20b?q=c+d''"
    using go_roundtrip_space by (cases "go_Parse ''http://www.google.com/a b?q=c+d''") auto
  have "ParseHookString go_url ''http://www.google.com/a b?q=c+d'' = Inr (UrlHook u)"
    by (simp add: ParseHookString_cases ParseUrlHook_def HasPrefix_def go_url_def u)
  then show ?thesis by (simp add: go_url_def s)
qed

theorem C4_witness:
  "ParseHookString go_url ''./scripts/lint.sh'' = Inr (FileHook ''./scripts/lint.sh'')
   \<and> hook_String go_url (FileHook ''./scripts/lint.sh'') = Some ''./scripts/lint.sh''
   \<and> ParseHookString go_url ''https://example.com/fmt.sh'' = Inr (UrlHook fmt_URL)
   \<and> hook_String go_url (UrlHook fmt_URL) = Some ''https://example.com/fmt.sh''"
proof -
  have p: "ParseHookString go_url ''./scripts/lint.sh'' = Inr (FileHook ''./scripts/lint.sh'')"
    by (rule parse_lint)
  have n: "\<not> (HasPrefix ''./scripts/lint.sh'' ''http://''
              \<or> HasPrefix ''./scripts/lint.sh'' ''https://'')"
    by (simp add: HasPrefix_def)
  have q: "ParseHookString go_url ''https://example.com/fmt.sh'' = Inr (UrlHook fmt_URL)"
    by (rule parse_fmt)
  have m: "HasPrefix ''https://example.com/fmt.sh'' ''https://''"
    by (simp add: HasPrefix_def)
  from C4_reserialized_descriptor [OF p] n
  have 1: "hook_String go_url (FileHook ''./scripts/lint.sh'') = Some ''./scripts/lint.sh''"
    by simp
  from C4_reserialized_descriptor [OF q] m
  have 2: "hook_String go_url (UrlHook fmt_URL) = Some ''https://example.com/fmt.sh''"
    by (simp add: go_url_def go_Parse_fmt go_String_fmt)
  from p q 1 2 show ?thesis by (intro conjI)
qed

text \<open>
  Claim C5, as amended. For an input that begins with \<^verbatim>\<open>http://\<close> or \<^verbatim>\<open>https://\<close>:
  ParseUrlHook returns the remote hook of the parsed URL, or the parse error of
  \<^verbatim>\<open>url.Parse\<close> for a malformed URL. ParseHookString returns the same remote hook in the
  first case; in the second it goes on to the next parser and returns the local hook of
  the input. It never fails.
\<close>

theorem C5_url_prefix_resolution:
  assumes "HasPrefix s ''http://'' \<or> HasPrefix s ''https://''"
  shows "ParseUrlHook L s =
           (case url_Parse L s of Inl err \<Rightarrow> Inl err | Inr url \<Rightarrow> Inr (UrlHook url))
         \<and> ParseHookString L s =
           (case url_Parse L s of Inl err \<Rightarrow> Inr (FileHook s) | Inr url \<Rightarrow> Inr (UrlHook url))"
  using assms by (auto simp: ParseHookString_cases ParseUrlHook_def split: sum.splits)

text \<open>
  Claim C5 as stated fails: \<^verbatim>\<open>http://a/%zz\<close> has the prefix and is rejected by
  \<^verbatim>\<open>url.Parse\<close> (an invalid escape), and ParseHookString returns a local hook for it.
\<close>

theorem C5_counterexample:
  "HasPrefix ''http://a/%zz'' ''http://''
   \<and> url_Parse go_url ''http://a/%zz'' = Inl (UrlParseError ''invalid URL escape %zz'')
   \<and> ParseHookString go_url ''http://a/%zz'' = Inr (FileHook ''http://a/%zz'')"
  by (simp add: HasPrefix_def ParseHookString_cases ParseUrlHook_def go_url_def go_Parse_bad)

theorem C5_witness:
  "HasPrefix ''https://example.com/fmt.sh'' ''https://''
   \<and> ParseHookString go_url ''https://example.com/fmt.sh'' = Inr (UrlHook fmt_URL)"
proof -
  have p: "HasPrefix ''https://example.com/fmt.sh'' ''https://''"
    by (simp add: HasPrefix_def)
  then have "HasPrefix ''https://example.com/fmt.sh'' ''http://''
             \<or> HasPrefix ''https://example.com/fmt.sh'' ''https://''" ..
  from C5_url_prefix_resolution [OF this, of go_url] p show ?thesis
    by (simp add: go_url_def go_Parse_fmt)
qed

subsection \<open>The registry\<close>

text \<open>
  Claim C6, as amended. For a valid timing, when the git directory resolves: allHooks
  fails when the registry file is absent; it fails with \<open>ErrTooLong\<close> when a line of the
  file has \<open>MaxScanTokenSize\<close> bytes or more; otherwise it returns, in file order, one
  descriptor for every line that is not empty after trimming white space, and nothing for
  the blank lines. The descriptor of a line is resolved from the text of the line as
  scanned (without its line feed and one trailing carriage return), which is the text
  that the program appends to its list.
\<close>

theorem C6_readAll_lines:
  assumes "isCorrectTiming timing"
    and "git_dir w = Some d"
  shows "allHooks L w timing =
     (case hooks_file w timing of
        None \<Rightarrow> Inl ENOENT
      | Some content \<Rightarrow>
          if list_all (\<lambda>l. length l < MaxScanTokenSize) (raw_lines content)
          then Inr (map (resolved L)
                 (filter (\<lambda>l. TrimSpace l \<noteq> []) (map dropCR (raw_lines content))))
          else Inl ErrTooLong)"
  using assms(2) by (rule allHooks_char)


text \<open>
  Claim C6 as stated fails twice: the text of a line is not trimmed (only its emptiness
  is decided on the trimmed text), and a registry file that exists is not read when one
  of its lines is too long for the scanner.
\<close>

theorem C6_counterexample:
  "allHooks go_url (registry_world '' a \<newline>'') ''pre-commit'' = Inr [FileHook '' a '']
   \<and> TrimSpace '' a '' = ''a''
   \<and> hooks_file (registry_world (replicate MaxScanTokenSize CHR ''x'')) ''pre-commit'' \<noteq> None
   \<and> allHooks go_url (registry_world (replicate MaxScanTokenSize CHR ''x'')) ''pre-commit''
       = Inl ErrTooLong"
proof -
  have g: "git_dir (registry_world c) = Some ''/repo/.git''" for c
    by (simp add: registry_world_def base_world_def)
  have r: "resolved go_url '' a '' = FileHook '' a ''"
    by (simp add: resolved_def ParseHookString_cases ParseUrlHook_def HasPrefix_def)
  have 1: "allHooks go_url (registry_world '' a \<newline>'') ''pre-commit'' = Inr [FileHook '' a '']"
    by (subst allHooks_char [OF g])
       (simp add: registry_world_def dropCR_def MaxScanTokenSize_def TrimSpace_a r)
  have "raw_lines (replicate MaxScanTokenSize CHR ''x'') = [replicate MaxScanTokenSize CHR ''x'']"
    by (rule raw_lines_no_newline) (simp_all add: MaxScanTokenSize_def)
  then have 2: "allHooks go_url (registry_world (replicate MaxScanTokenSize CHR ''x'')) ''pre-commit''
       = Inl ErrTooLong"
    by (subst allHooks_char [OF g]) (simp add: registry_world_def)
  have 3: "hooks_file (registry_world (replicate MaxScanTokenSize CHR ''x'')) ''pre-commit'' \<noteq> None"
    by (simp add: registry_world_def)
  from 1 TrimSpace_a 3 2 show ?thesis by (intro conjI)
qed

theorem C6_witness:
  "isCorrectTiming ''pre-commit''
   \<and> allHooks go_url
        (registry_world ''./scripts/lint.sh\<newline>\<newline>  \<newline>https://example.com/fmt.sh\<newline>'')
        ''pre-commit''
       = Inr [FileHook ''./scripts/lint.sh'', UrlHook fmt_URL]
   \<and> allHooks go_url base_world ''pre-commit'' = Inl ENOENT"
proof -
  have g: "git_dir (registry_world c) = Some ''/repo/.git''" for c
    by (simp add: registry_world_def base_world_def)
  have b: "git_dir base_world = Some ''/repo/.git''"
    by (simp add: base_world_def)
  have rl: "resolved go_url ''./scripts/lint.sh'' = FileHook ''./scripts/lint.sh''"
    by (simp add: resolved_def parse_lint)
  have rf: "resolved go_url ''https://example.com/fmt.sh'' = UrlHook fmt_URL"
    by (simp add: resolved_def parse_fmt)
  have t0: "TrimSpace [] = []" by code_simp
  from C6_readAll_lines [OF pre_commit_timing g, of go_url]
  have 1: "allHooks go_url
        (registry_world ''./scripts/lint.sh\<newline>\<newline>  \<newline>https://example.com/fmt.sh\<newline>'')
        ''pre-commit''
       = Inr [FileHook ''./scripts/lint.sh'', UrlHook fmt_URL]"
    by (simp add: registry_world_def dropCR_def MaxScanTokenSize_def
          TrimSpace_lint TrimSpace_fmt TrimSpace_blank t0 rl rf)
  from C6_readAll_lines [OF pre_commit_timing b, of go_url]
  have 2: "allHooks go_url base_world ''pre-commit'' = Inl ENOENT"
    by (simp add: base_world_def)
  from pre_commit_timing 1 2 show ?thesis by (intro conjI)
qed
subsection \<open>The installer\<close>

text \<open>
  Claim C1, as amended. For a valid timing and a registration string \<open>s\<close> for which
  installHook succeeds, reading the registry afterwards succeeds and returns the hooks
  read before the install (none, if that read failed) followed by the descriptor of \<open>s\<close>,
  provided that: the string form of the descriptor is \<open>s\<close> itself (as it always is for
  the local-path form); \<open>s\<close> contains no line feed, does not end with a carriage
  return, is not blank and is shorter than the scanner's token limit; and the registry
  file before the install is absent, or is empty or ends with a line feed and has no
  over-long line.
\<close>

theorem C1_install_then_read:
  assumes "isCorrectTiming timing"
    and "installHook L w timing s = (None, w')"
    and "ParseHookString L s = Inr h"
    and "hook_String L h = Some s"
    and "CHR 0x0A \<notin> set s"
    and "dropCR s = s"
    and "TrimSpace s \<noteq> []"
    and "length s < MaxScanTokenSize"
    and "case hooks_file w timing of
           None \<Rightarrow> True
         | Some old \<Rightarrow> (old = [] \<or> last old = CHR 0x0A)
                        \<and> list_all (\<lambda>l. length l < MaxScanTokenSize) (raw_lines old)"
  shows "allHooks L w' timing =
           Inr ((case allHooks L w timing of Inl err \<Rightarrow> [] | Inr hooks \<Rightarrow> hooks) @ [h])"
proof -
  from installHook_success [OF assms(2)] assms(3,4)
  obtain w1 i d where u: "updateHookScript L w timing i h = (None, w1)"
    and d: "git_dir w = Some d"
    and w': "w' = append_registry w1 timing (s @ [CHR 0x0A])"
    by auto
  define old where "old = (case hooks_file w timing of None \<Rightarrow> [] | Some c \<Rightarrow> c)"
  from u have hf: "hooks_file w1 = hooks_file w" and gd: "git_dir w1 = git_dir w"
    by (simp_all add: updateHookScript_hooks_file updateHookScript_git_dir)
  have d': "git_dir w' = Some d"
    by (simp add: w' append_registry_def gd d)
  have f': "hooks_file w' timing = Some (old @ s @ [CHR 0x0A])"
    by (simp add: w' append_registry_def hf old_def)
  from assms(9) have ended: "old = [] \<or> last old = CHR 0x0A"
    and short: "list_all (\<lambda>l. length l < MaxScanTokenSize) (raw_lines old)"
    by (auto simp: old_def split: option.splits)
  have rl: "raw_lines (old @ s @ [CHR 0x0A]) = raw_lines old @ [s]"
    using raw_lines_append [OF ended] raw_lines_terminated [OF assms(5)] by simp
  have res: "resolved L s = h"
    by (simp add: resolved_def assms(3))
  have new: "allHooks L w' timing =
      Inr (map (resolved L) (filter (\<lambda>l. TrimSpace l \<noteq> []) (map dropCR (raw_lines old))) @ [h])"
    by (subst allHooks_char [OF d']) (simp add: f' rl short assms(6,7,8) res)
  have "(case allHooks L w timing of Inl err \<Rightarrow> [] | Inr hooks \<Rightarrow> hooks) =
      map (resolved L) (filter (\<lambda>l. TrimSpace l \<noteq> []) (map dropCR (raw_lines old)))"
    using short by (subst allHooks_char [OF d]) (simp add: old_def split: option.splits)
  with new show ?thesis by simp
qed

text \<open>
  Claim C1 as stated fails: installing the string of one space on the empty registry
  succeeds (a symbolic link \<^verbatim>\<open>0- \<close> is created and a line of one space appended), and
  reading the registry afterwards returns no entry at all, as blank lines are skipped.
\<close>

theorem C1_counterexample:
  "installHook go_url (registry_world []) ''pre-commit'' '' '' =
     (None, (registry_world '' \<newline>'')\<lparr>installed := (\<lambda>timing. Absent)
               (''pre-commit'' := Dir [(''0- '', Symlink '' '')])\<rparr>)
   \<and> allHooks go_url
        ((registry_world '' \<newline>'')\<lparr>installed := (\<lambda>timing. Absent)
               (''pre-commit'' := Dir [(''0- '', Symlink '' '')])\<rparr>) ''pre-commit''
      = Inr []"
proof -
  have p: "ParseHookString go_url '' '' = Inr (FileHook '' '')"
    by (simp add: ParseHookString_cases ParseUrlHook_def HasPrefix_def)
  have a: "allHooks go_url (registry_world []) ''pre-commit'' = Inr []"
    by (subst allHooks_char [OF git_dir_registry_world]) (simp add: registry_world_def)
  have n: "artifact_file 0 (Base '' '') = ''0- ''"
    by (simp add: artifact_file_def JoinLeaf_def itoa_0 Base_def)
  have u: "updateHookScript go_url (registry_world []) ''pre-commit'' 0 (FileHook '' '')
             = (None, (registry_world [])\<lparr>installed := (\<lambda>timing. Absent)
                  (''pre-commit'' := Dir [(''0- '', Symlink '' '')])\<rparr>)"
    by (simp add: updateHookScript_def gitDirPath_def git_dir_registry_world n)
       (simp add: registry_world_def base_world_def MkdirAll_def os_Symlink_def
          set_installed_def n)
  have 1: "installHook go_url (registry_world []) ''pre-commit'' '' '' =
     (None, (registry_world '' \<newline>'')\<lparr>installed := (\<lambda>timing. Absent)
               (''pre-commit'' := Dir [(''0- '', Symlink '' '')])\<rparr>)"
    by (simp add: installHook_def p a u gitDirPath_def git_dir_registry_world
          append_registry_def)
       (simp add: registry_world_def base_world_def)
  have g: "git_dir ((registry_world '' \<newline>'')\<lparr>installed := (\<lambda>timing. Absent)
               (''pre-commit'' := Dir [(''0- '', Symlink '' '')])\<rparr>) = Some ''/repo/.git''"
    by (simp add: git_dir_registry_world)
  have 2: "allHooks go_url
        ((registry_world '' \<newline>'')\<lparr>installed := (\<lambda>timing. Absent)
               (''pre-commit'' := Dir [(''0- '', Symlink '' '')])\<rparr>) ''pre-commit''
      = Inr []"
    by (subst allHooks_char [OF g])
       (simp add: registry_world_def dropCR_def MaxScanTokenSize_def TrimSpace_space)
  from 1 2 show ?thesis by (intro conjI)
qed

theorem C1_witness:
  "isCorrectTiming ''pre-commit''
   \<and> installHook go_url (registry_world ''./scripts/lint.sh\<newline>'') ''pre-commit''
        ''./scripts/test.sh'' =
     (None, (registry_world ''./scripts/lint.sh\<newline>./scripts/test.sh\<newline>'')
              \<lparr>installed := (\<lambda>timing. Absent)
                 (''pre-commit'' := Dir [(''1-test.sh'', Symlink ''./scripts/test.sh'')])\<rparr>)
   \<and> allHooks go_url
        ((registry_world ''./scripts/lint.sh\<newline>./scripts/test.sh\<newline>'')
              \<lparr>installed := (\<lambda>timing. Absent)
                 (''pre-commit'' := Dir [(''1-test.sh'', Symlink ''./scripts/test.sh'')])\<rparr>)
        ''pre-commit''
      = Inr [FileHook ''./scripts/lint.sh'', FileHook ''./scripts/test.sh'']"
proof -
  let ?w = "registry_world ''./scripts/lint.sh\<newline>''"
  let ?w' = "(registry_world ''./scripts/lint.sh\<newline>./scripts/test.sh\<newline>'')
              \<lparr>installed := (\<lambda>timing. Absent)
                 (''pre-commit'' := Dir [(''1-test.sh'', Symlink ''./scripts/test.sh'')])\<rparr>"
  have rl: "resolved go_url ''./scripts/lint.sh'' = FileHook ''./scripts/lint.sh''"
    by (simp add: resolved_def parse_lint)
  have a: "allHooks go_url ?w ''pre-commit'' = Inr [FileHook ''./scripts/lint.sh'']"
    by (subst allHooks_char [OF git_dir_registry_world])
       (simp add: registry_world_def dropCR_def MaxScanTokenSize_def TrimSpace_lint rl)
  have n: "artifact_file (Suc 0) (Base ''./scripts/test.sh'') = ''1-test.sh''"
    by (simp add: artifact_file_def JoinLeaf_def itoa_Suc_0 Base_test)
  have u: "updateHookScript go_url ?w ''pre-commit'' (Suc 0) (FileHook ''./scripts/test.sh'')
             = (None, ?w\<lparr>installed := (\<lambda>timing. Absent)
                  (''pre-commit'' := Dir [(''1-test.sh'', Symlink ''./scripts/test.sh'')])\<rparr>)"
    by (simp add: updateHookScript_def gitDirPath_def git_dir_registry_world n)
       (simp add: registry_world_def base_world_def MkdirAll_def os_Symlink_def
          set_installed_def n)
  have i: "installHook go_url ?w ''pre-commit'' ''./scripts/test.sh'' = (None, ?w')"
    by (simp add: installHook_def parse_test a u gitDirPath_def git_dir_registry_world
          append_registry_def)
       (simp add: registry_world_def base_world_def)
  have s: "hook_String go_url (FileHook ''./scripts/test.sh'') = Some ''./scripts/test.sh''"
    by simp
  have c1: "CHR 0x0A \<notin> set ''./scripts/test.sh''" by simp
  have c2: "dropCR ''./scripts/test.sh'' = ''./scripts/test.sh''" by (simp add: dropCR_def)
  have c3: "TrimSpace ''./scripts/test.sh'' \<noteq> []" by (simp add: TrimSpace_test)
  have c4: "length ''./scripts/test.sh'' < MaxScanTokenSize" by (simp add: MaxScanTokenSize_def)
  have c5: "case hooks_file ?w ''pre-commit'' of
           None \<Rightarrow> True
         | Some old \<Rightarrow> (old = [] \<or> last old = CHR 0x0A)
                        \<and> list_all (\<lambda>l. length l < MaxScanTokenSize) (raw_lines old)"
    by (simp add: registry_world_def MaxScanTokenSize_def)
  from C1_install_then_read [OF pre_commit_timing i parse_test s c1 c2 c3 c4 c5]
  have "allHooks go_url ?w' ''pre-commit''
      = Inr [FileHook ''./scripts/lint.sh'', FileHook ''./scripts/test.sh'']"
    by (simp add: a)
  with pre_commit_timing i show ?thesis by (intro conjI)
qed




text \<open>
  Claim C3. For a valid timing, whenever installHook returns an error (the install action
  failed, or anything before it), the registry files are as they were: the line is
  appended only on the path where the install action has returned without error.
\<close>

theorem C3_failed_install_keeps_registry:
  assumes "isCorrectTiming timing"
    and "installHook L w timing s = (Some err, w')"
  shows "hooks_file w' = hooks_file w"
proof -
  obtain h where h: "ParseHookString L s = Inr h" "h \<noteq> NilHook"
    using ParseHookString_total by blast
  then obtain str where str: "hook_String L h = Some str"
    using hook_String_Some by blast
  define n where "n = length (case allHooks L w timing of Inl err \<Rightarrow> [] | Inr hs \<Rightarrow> hs)"
  obtain r w1 where u: "updateHookScript L w timing n h = (r, w1)"
    by (cases "updateHookScript L w timing n h")
  show ?thesis
  proof (cases r)
    case (Some e)
    with assms(2) h u have "w' = w1" by (simp add: installHook_def n_def)
    with u show ?thesis by (simp add: updateHookScript_hooks_file)
  next
    case None
    with u obtain d where "git_dir w = Some d"
      using updateHookScript_ok_git_dir by blast
    with u have "gitDirPath w1 = Inr d"
      by (simp add: gitDirPath_def updateHookScript_git_dir)
    with assms(2) h u None str show ?thesis by (simp add: installHook_def n_def)
  qed
qed

theorem C3_witness:
  "isCorrectTiming ''pre-commit''
   \<and> installHook go_url (registry_world []) ''pre-commit'' ''https://example.com/fmt.sh''
       = (Some HttpError, set_installed (registry_world []) ''pre-commit'' [])
   \<and> hooks_file (set_installed (registry_world []) ''pre-commit'' [])
       = hooks_file (registry_world [])"
proof -
  have a: "allHooks go_url (registry_world []) ''pre-commit'' = Inr []"
    by (simp add: allHooks_def registry_world_def base_world_def gitDirPath_def scan_lines_def)
  have u: "updateHookScript go_url (registry_world []) ''pre-commit'' 0 (UrlHook fmt_URL)
             = (Some HttpError, set_installed (registry_world []) ''pre-commit'' [])"
    by (simp add: updateHookScript_def registry_world_def base_world_def gitDirPath_def
          MkdirAll_def set_installed_def)
  have i: "installHook go_url (registry_world []) ''pre-commit'' ''https://example.com/fmt.sh''
             = (Some HttpError, set_installed (registry_world []) ''pre-commit'' [])"
    by (simp add: installHook_def parse_fmt a u)
  from pre_commit_timing i C3_failed_install_keeps_registry [OF pre_commit_timing i]
  show ?thesis by (intro conjI)
qed



subsection \<open>The dispatcher\<close>

text \<open>
  Claim C7, as amended. For a valid timing, when the git directory resolves and
  \<^verbatim>\<open>rebase-merge\<close> or \<^verbatim>\<open>rebase-apply\<close> is a directory, runTest runs no child
  process, whatever the installed directory holds. It returns success when both
  \<^verbatim>\<open>os.Stat\<close> probes complete; when one of them fails with an error other than
  "does not exist", runTest returns that error (still without running anything).
\<close>

theorem C7_rebase_skips_all_children:
  assumes "isCorrectTiming timing"
    and "git_dir w = Some d"
    and "rebase_merge w = IsDir \<or> rebase_apply w = IsDir"
  shows "runTest w timing args =
           (if rebase_merge w = StatFails \<or> rebase_apply w = StatFails then Some EIO else None,
            [])"
  using assms
  by (cases "rebase_merge w"; cases "rebase_apply w")
     (simp_all add: runTest_def gitRebaseInProgress_def gitDirPath_def directoryExists_def)

text \<open>
  Claim C7 as stated fails: with \<^verbatim>\<open>rebase-merge\<close> a directory and a failing probe of
  \<^verbatim>\<open>rebase-apply\<close>, runTest reports the error instead of success.
\<close>

theorem C7_counterexample:
  "rebase_merge (base_world\<lparr>rebase_merge := IsDir, rebase_apply := StatFails\<rparr>) = IsDir
   \<and> runTest (base_world\<lparr>rebase_merge := IsDir, rebase_apply := StatFails\<rparr>) ''pre-commit'' []
       = (Some EIO, [])"
  by (simp add: base_world_def runTest_def gitRebaseInProgress_def gitDirPath_def
        directoryExists_def)

theorem C7_witness:
  "isCorrectTiming ''pre-commit''
   \<and> rebase_apply (base_world\<lparr>rebase_apply := IsDir, installed := (\<lambda>t. Dir [(''0-lint.sh'', Symlink ''./scripts/lint.sh'')])\<rparr>) = IsDir
   \<and> runTest (base_world\<lparr>rebase_apply := IsDir, installed := (\<lambda>t. Dir [(''0-lint.sh'', Symlink ''./scripts/lint.sh'')])\<rparr>) ''pre-commit'' [''HEAD'']
       = (None, [])"
proof -
  let ?w = "base_world\<lparr>rebase_apply := IsDir, installed := (\<lambda>t. Dir [(''0-lint.sh'', Symlink ''./scripts/lint.sh'')])\<rparr>"
  note t = pre_commit_timing
  have g: "git_dir ?w = Some ''/repo/.git''" by (simp add: base_world_def)
  have r: "rebase_merge ?w = IsDir \<or> rebase_apply ?w = IsDir" by simp
  from C7_rebase_skips_all_children [OF t g r, of "[''HEAD'']"] t show ?thesis
    by (simp add: base_world_def)
qed



text \<open>
  Claim C10. For a valid timing, the \<^verbatim>\<open>test\<close> command accepts any further arguments
  and passes them to runTest, whose result does not depend on them: every child process
  is started with an empty argument list.
\<close>

theorem C10_test_forwards_no_arguments:
  assumes "isCorrectTiming timing"
  shows "test_action w (timing # args) = runTest w timing args
         \<and> runTest w timing args = runTest w timing []
         \<and> (\<forall>p \<in> set (snd (runTest w timing args)). snd p = [])"
proof -
  have a: "test_action w (timing # args) = runTest w timing args"
    using assms by (simp add: test_action_def unshiftTiming_def)
  have b: "runTest w timing args = runTest w timing []"
    by (simp add: runTest_def)
  have c: "snd p = []" if "p \<in> set (snd (runTest w timing args))" for p
  proof -
    obtain r tr where rt: "runTest w timing args = (r, tr)" by (cases "runTest w timing args")
    with that have p: "p \<in> set tr" by simp
    show ?thesis
    proof (cases "gitRebaseInProgress w")
      case (Inl e)
      with rt p show ?thesis by (simp add: runTest_def)
    next
      case (Inr progress)
      show ?thesis
      proof (cases "progress \<or> git_dir w = None")
        case True
        with rt p Inr show ?thesis
          by (auto simp: runTest_def gitDirPath_def split: if_splits)
      next
        case False
        then obtain d where "git_dir w = Some d" and "\<not> progress" by auto
        with rt Inr have
          "run_scripts w [] (map (installed_path d timing) (Glob (installed w timing))) = (r, tr)"
          by (simp add: runTest_def gitDirPath_def)
        from run_scripts_no_args [OF this p] show ?thesis by simp
      qed
    qed
  qed
  from a b c show ?thesis by blast
qed

theorem C10_witness:
  "isCorrectTiming ''pre-commit''
   \<and> test_action (base_world\<lparr>installed := (\<lambda>timing. Dir three_artifacts)\<rparr>)
        [''pre-commit'', ''HEAD'', ''--amend'']
      = (None,
         [(''/repo/.git/hooks/pre-commit.installed/0-lint.sh'', []),
          (''/repo/.git/hooks/pre-commit.installed/1-fmt.sh'', []),
          (''/repo/.git/hooks/pre-commit.installed/2-test.sh'', [])])"
proof -
  let ?w = "base_world\<lparr>installed := (\<lambda>timing. Dir three_artifacts)\<rparr>"
  note t = pre_commit_timing
  have rt: "runTest ?w ''pre-commit'' [] =
      (None,
         [(''/repo/.git/hooks/pre-commit.installed/0-lint.sh'', []),
          (''/repo/.git/hooks/pre-commit.installed/1-fmt.sh'', []),
          (''/repo/.git/hooks/pre-commit.installed/2-test.sh'', [])])"
    by (simp add: runTest_def gitRebaseInProgress_def gitDirPath_def directoryExists_def
          Glob_three installed_path_def base_world_def)
  have "test_action ?w [''pre-commit'', ''HEAD'', ''--amend''] = runTest ?w ''pre-commit'' []"
    using C10_test_forwards_no_arguments [OF t, of ?w "[''HEAD'', ''--amend'']"]
    by (elim conjE) (rule trans)
  with rt t show ?thesis by (simp only: simp_thms)
qed

end
